theory Spec2Isabelle
  imports Main "HOL-Library.Sublist"
begin

section \<open>Reddit Python Topics Analyzer (web\_scraping/main.py, web\_scraping/copy.py)\<close>

text \<open>
  The two files hold the same program (copy.py is main.py without its comments), so one
  embedding serves both. The program's effects are explicit: the network and the HTML
  parser are functions of a \<open>world\<close>, printing, requests and sleeping are events appended
  to an output trace, and the clock is a field of the state.
\<close>

subsection \<open>Python strings\<close>

text \<open>
  A Python \<open>str\<close> is a sequence of code points and \<open>len\<close> counts them. Here a text is a
  \<open>string\<close> whose every \<open>char\<close> stands for one code point below 256, and the string
  methods are the ones of Python on that range.
\<close>

definition isspace :: "char \<Rightarrow> bool" where
  "isspace c =
     (let n = (of_char c :: nat)
      in (9 \<le> n \<and> n \<le> 13) \<or> (28 \<le> n \<and> n \<le> 32) \<or> n = 133 \<or> n = 160)"

text \<open>\<open>s.strip()\<close>: whitespace removed at both ends.\<close>

definition strip :: "string \<Rightarrow> string" where
  "strip s = rev (dropWhile isspace (rev (dropWhile isspace s)))"

text \<open>\<open>s.lower()\<close>: A to Z and the capital letters of Latin-1 move up by 32.\<close>

definition lower_char :: "char \<Rightarrow> char" where
  "lower_char c =
     (let n = (of_char c :: nat)
      in if (65 \<le> n \<and> n \<le> 90) \<or> (192 \<le> n \<and> n \<le> 222 \<and> n \<noteq> 215)
         then char_of (n + 32) else c)"

definition lower :: "string \<Rightarrow> string" where
  "lower s = map lower_char s"

text \<open>\<open>url.split('/')[-1]\<close>: what follows the last slash (the whole string without one).\<close>

definition last_segment :: "string \<Rightarrow> string" where
  "last_segment url = rev (takeWhile (\<lambda>c. c \<noteq> CHR ''/'') (rev url))"

subsection \<open>The parsed document\<close>

text \<open>
  What the program reads of a \<open>BeautifulSoup\<close> object: the \<open>title\<close> tag's \<open>.string\<close>
  (no tag at all is \<open>None\<close>, a tag whose \<open>.string\<close> is Python's \<open>None\<close> is \<open>Some None\<close>),
  and the tags in document order, each with its name, its attributes and the text
  strings below it.
\<close>

record tag =
  tag_name :: string
  tag_attrs :: "(string \<times> string) list"
  tag_strings :: "string list"

record soup =
  soup_title :: "string option option"
  soup_tags :: "tag list"

text \<open>\<open>tag.get_text(strip=True)\<close>: every string below the tag stripped, then joined.\<close>

definition get_text_strip :: "tag \<Rightarrow> string" where
  "get_text_strip t = concat (map strip (tag_strings t))"

text \<open>\<open>soup.find_all([names])\<close>.\<close>

definition find_all :: "soup \<Rightarrow> string list \<Rightarrow> tag list" where
  "find_all s names = filter (\<lambda>t. tag_name t \<in> set names) (soup_tags s)"

text \<open>
  \<open>soup.find_all('a', href=True)\<close>, each tag paired with its \<open>link['href']\<close>: the filter
  keeps the tags that have the attribute, so the lookup of the loop body cannot fail.
\<close>

definition find_all_a_href :: "soup \<Rightarrow> (tag \<times> string) list" where
  "find_all_a_href s =
     List.map_filter
       (\<lambda>t. if tag_name t = ''a''
            then (case map_of (tag_attrs t) ''href'' of
                    None \<Rightarrow> None
                  | Some href \<Rightarrow> Some (t, href))
            else None)
       (soup_tags s)"

subsection \<open>Records of the result\<close>

record topic =
  topic_title :: string
  topic_type :: string

record discussion =
  disc_title :: string
  disc_url :: string
  disc_type :: string

record subreddit_data =
  subreddit :: string
  url :: string
  title :: "string option"
  scraped_at :: nat
  python_topics :: "topic list"
  discussions :: "discussion list"

subsection \<open>Extraction: the two loops over the document\<close>

definition topic_keywords :: "string list" where
  "topic_keywords = [''python'', ''programming'', ''code'', ''developer'', ''coding'']"

text \<open>\<open>any(keyword in text.lower() for keyword in [...])\<close>.\<close>

definition any_keyword :: "string \<Rightarrow> bool" where
  "any_keyword text = list_ex (\<lambda>keyword. sublist keyword (lower text)) topic_keywords"

text \<open>The body of \<open>for heading in soup.find_all(['h1', 'h2', 'h3', 'h4'])\<close>.\<close>

definition heading_step :: "topic list \<Rightarrow> tag \<Rightarrow> topic list" where
  "heading_step topics heading =
     (let text = get_text_strip heading
      in if text \<noteq> [] \<and> length text > 3
         then if any_keyword text
              then topics @ [\<lparr>topic_title = text, topic_type = ''python_topic''\<rparr>]
              else topics
         else topics)"

fun heading_loop :: "tag list \<Rightarrow> topic list \<Rightarrow> topic list" where
  "heading_loop [] topics = topics"
| "heading_loop (heading # rest) topics = heading_loop rest (heading_step topics heading)"

text \<open>\<open>text[:100] + '...' if len(text) > 100 else text\<close>.\<close>

definition truncate_title :: "string \<Rightarrow> string" where
  "truncate_title text = (if length text > 100 then take 100 text @ ''...'' else text)"

text \<open>
  The body of \<open>for link in soup.find_all('a', href=True)\<close>, on the pair
  \<open>(discussions, seen_urls)\<close>.
\<close>

definition link_step ::
  "discussion list \<times> string set \<Rightarrow> tag \<times> string \<Rightarrow> discussion list \<times> string set" where
  "link_step acc lnk =
     (let discussions = fst acc; seen_urls = snd acc;
          text = get_text_strip (fst lnk); href = snd lnk
      in if text \<noteq> [] \<and> length text > 1 \<and> sublist ''/comments/'' href \<and> href \<notin> seen_urls
         then (discussions @
                 [\<lparr>disc_title = truncate_title text, disc_url = href,
                   disc_type = ''discussion''\<rparr>],
               insert href seen_urls)
         else (discussions, seen_urls))"

fun link_loop ::
  "(tag \<times> string) list \<Rightarrow> discussion list \<times> string set \<Rightarrow> discussion list \<times> string set" where
  "link_loop [] acc = acc"
| "link_loop (lnk # rest) acc = link_loop rest (link_step acc lnk)"

text \<open>
  Lines 117 to 168 of main.py: \<open>topics = []\<close> and the heading loop, then
  \<open>discussions = []\<close>, \<open>seen_urls = set()\<close> and the link loop.
\<close>

definition extract_topics :: "soup \<Rightarrow> topic list" where
  "extract_topics s = heading_loop (find_all s [''h1'', ''h2'', ''h3'', ''h4'']) []"

definition extract_discussions :: "soup \<Rightarrow> discussion list" where
  "extract_discussions s = fst (link_loop (find_all_a_href s) ([], {}))"

subsection \<open>The network, the parser and the files\<close>

text \<open>
  The exceptions the program can meet. The first four are subclasses of
  \<open>requests.RequestException\<close> (\<open>HTTPError\<close> is what \<open>raise_for_status\<close> raises, with
  the status code); \<open>OtherException\<close> is any other subclass of \<open>Exception\<close>.
\<close>

datatype exn =
    ConnectionError string
  | Timeout string
  | HTTPError nat
  | RequestException string
  | OtherException string

fun is_RequestException :: "exn \<Rightarrow> bool" where
  "is_RequestException (OtherException msg) = False"
| "is_RequestException e = True"

record response =
  status_code :: nat
  content :: string

text \<open>\<open>response.raise_for_status()\<close>: an exception for the statuses 400 to 599.\<close>

definition raise_for_status :: "response \<Rightarrow> exn + unit" where
  "raise_for_status r =
     (if 400 \<le> status_code r \<and> status_code r < 600
      then Inl (HTTPError (status_code r)) else Inr ())"

text \<open>
  What lies outside the program: \<open>requests_get url headers timeout\<close> is the outcome of
  \<open>requests.get(url, headers=headers, timeout=timeout)\<close>, a response or the exception
  raised; \<open>html_parser content\<close> is \<open>BeautifulSoup(content, 'html.parser')\<close>;
  \<open>duration url\<close> is the time the request takes; \<open>file_error name\<close> is the exception
  that writing the file raises, if any.
\<close>

record world =
  requests_get :: "string \<Rightarrow> (string \<times> string) list \<Rightarrow> nat \<Rightarrow> exn + response"
  html_parser :: "string \<Rightarrow> exn + soup"
  duration :: "string \<Rightarrow> nat"
  file_error :: "string \<Rightarrow> exn option"

subsection \<open>Output and state\<close>

text \<open>
  One constructor for each \<open>print\<close> call of the program, with the values its f-string
  interpolates.
\<close>

datatype line =
    Banner
  | Rule
  | Scraping string
  | Error_fetching string exn
  | Error_parsing string exn
  | Analysis_Results
  | Subreddit_Line string nat nat
  | Total_Line nat nat nat
  | No_data_to_save
  | Saved_to string
  | Error_saving_JSON exn
  | Error_saving_CSV exn
  | Completed
  | Check_files
  | Analysis_failed

datatype csv_row =
    Header
  | Row string string string string nat

datatype event =
    Print line
  | Get string
  | Sleep nat
  | Write_Json string "subreddit_data list"
  | Write_Csv string "csv_row list"

text \<open>
  \<open>all_data\<close> is the local list of \<open>scrape_reddit_python_topics\<close>; \<open>trace\<close> is the
  trace of everything the program has done to the outside so far, oldest first;
  \<open>clock\<close> is the time in seconds, which \<open>time.strftime\<close> reads.
\<close>

record state =
  all_data :: "subreddit_data list"
  trace :: "event list"
  clock :: nat

definition emit :: "event \<Rightarrow> state \<Rightarrow> state" where
  "emit e st = st\<lparr>trace := trace st @ [e]\<rparr>"

definition print :: "line \<Rightarrow> state \<Rightarrow> state" where
  "print l st = emit (Print l) st"

text \<open>\<open>time.sleep(n)\<close>.\<close>

definition sleep :: "nat \<Rightarrow> state \<Rightarrow> state" where
  "sleep n st = (emit (Sleep n) st)\<lparr>clock := clock st + n\<rparr>"

subsection \<open>scrape\_reddit\_python\_topics\<close>

definition subreddits :: "string list" where
  "subreddits =
     [''https://www.reddit.com/r/Python'',
      ''https://www.reddit.com/r/programming'',
      ''https://www.reddit.com/r/learnpython'']"

definition headers :: "(string \<times> string) list" where
  "headers =
     [(''User-Agent'', ''Mozilla/5.0 (Windows NT 10.0; Win64; x64) AppleWebKit/537.36'')]"

text \<open>
  The \<open>try\<close> block up to the two lists being stored in \<open>subreddit_data\<close>: the value
  appended to \<open>all_data\<close>, or the exception that leaves the block. \<open>now\<close> is the clock
  when \<open>time.strftime\<close> is called.
\<close>

definition try_block :: "world \<Rightarrow> string \<Rightarrow> string \<Rightarrow> nat \<Rightarrow> exn + subreddit_data" where
  "try_block w target subreddit_name now =
     (case requests_get w target headers 10 of
        Inl e \<Rightarrow> Inl e
      | Inr response \<Rightarrow>
          (case raise_for_status response of
             Inl e \<Rightarrow> Inl e
           | Inr u \<Rightarrow>
               (case html_parser w (content response) of
                  Inl e \<Rightarrow> Inl e
                | Inr soup \<Rightarrow>
                    Inr \<lparr>subreddit = subreddit_name,
                         url = target,
                         title = (case soup_title soup of
                                    None \<Rightarrow> Some ''No title''
                                  | Some s \<Rightarrow> s),
                         scraped_at = now,
                         python_topics = extract_topics soup,
                         discussions = extract_discussions soup\<rparr>)))"

text \<open>
  The body of \<open>for url in subreddits\<close>. The request is issued, and takes its time,
  whatever its outcome; \<open>time.sleep(2)\<close> is the last statement of the \<open>try\<close> block, after
  the append; the first handler takes the subclasses of \<open>RequestException\<close>, the second
  every other exception.
\<close>

definition scrape_step :: "world \<Rightarrow> state \<Rightarrow> string \<Rightarrow> state" where
  "scrape_step w st target =
     (let subreddit_name = last_segment target;
          st1 = print (Scraping subreddit_name) st;
          st2 = (emit (Get target) st1)\<lparr>clock := clock st1 + duration w target\<rparr>
      in case try_block w target subreddit_name (clock st2) of
           Inr subreddit_data \<Rightarrow> sleep 2 (st2\<lparr>all_data := all_data st2 @ [subreddit_data]\<rparr>)
         | Inl e \<Rightarrow>
             if is_RequestException e
             then print (Error_fetching subreddit_name e) st2
             else print (Error_parsing subreddit_name e) st2)"

fun scrape_loop :: "world \<Rightarrow> string list \<Rightarrow> state \<Rightarrow> state" where
  "scrape_loop w [] st = st"
| "scrape_loop w (target # rest) st = scrape_loop w rest (scrape_step w st target)"

text \<open>
  The function over any list of targets, and with the list it has in the source. Its
  Python return value is \<open>all_data\<close> of the state returned here.
\<close>

definition scrape_targets :: "world \<Rightarrow> string list \<Rightarrow> state \<Rightarrow> state" where
  "scrape_targets w targets st = scrape_loop w targets (st\<lparr>all_data := []\<rparr>)"

definition scrape_reddit_python_topics :: "world \<Rightarrow> state \<Rightarrow> state" where
  "scrape_reddit_python_topics w st = scrape_targets w subreddits st"

subsection \<open>save\_python\_data and main\<close>

definition csv_rows :: "subreddit_data list \<Rightarrow> csv_row list" where
  "csv_rows data =
     Header #
     concat (map (\<lambda>d.
       map (\<lambda>t. Row (subreddit d) (topic_type t) (topic_title t) [] (scraped_at d))
         (python_topics d) @
       map (\<lambda>x. Row (subreddit d) (disc_type x) (disc_title x) (disc_url x) (scraped_at d))
         (discussions d)) data)"

text \<open>
  Each of the two \<open>try\<close> blocks either writes its file whole and prints the name, or
  prints the error: a file left half written is not told apart here.
\<close>

definition save_python_data :: "world \<Rightarrow> subreddit_data list \<Rightarrow> string \<Rightarrow> string \<Rightarrow> state \<Rightarrow> state" where
  "save_python_data w data filename_json filename_csv st =
     (if data = [] then print No_data_to_save st
      else
        let st1 = (case file_error w filename_json of
                     None \<Rightarrow> print (Saved_to filename_json) (emit (Write_Json filename_json data) st)
                   | Some e \<Rightarrow> print (Error_saving_JSON e) st)
        in (case file_error w filename_csv of
              None \<Rightarrow> print (Saved_to filename_csv) (emit (Write_Csv filename_csv (csv_rows data)) st1)
            | Some e \<Rightarrow> print (Error_saving_CSV e) st1))"

text \<open>
  The loop of main over \<open>data\<close>, on \<open>(total_topics, total_discussions)\<close> and the state.
\<close>

fun summary_loop :: "subreddit_data list \<Rightarrow> nat \<times> nat \<Rightarrow> state \<Rightarrow> (nat \<times> nat) \<times> state" where
  "summary_loop [] totals st = (totals, st)"
| "summary_loop (subreddit_data # rest) totals st =
     (let topics_count = length (python_topics subreddit_data);
          discussions_count = length (discussions subreddit_data)
      in summary_loop rest
           (fst totals + topics_count, snd totals + discussions_count)
           (print (Subreddit_Line (subreddit subreddit_data) topics_count discussions_count) st))"

definition main_targets :: "world \<Rightarrow> string list \<Rightarrow> state \<Rightarrow> state" where
  "main_targets w targets st =
     (let st1 = print Rule (print Banner st);
          st2 = scrape_targets w targets st1;
          data = all_data st2
      in if data \<noteq> []
         then
           let st3 = print Analysis_Results st2;
               r = summary_loop data (0, 0) st3;
               st4 = print (Total_Line (fst (fst r)) (snd (fst r)) (length data)) (snd r);
               st5 = save_python_data w data ''python_topics.json'' ''python_topics.csv'' st4
           in print Check_files (print Completed st5)
         else print Analysis_failed st2)"

definition main :: "world \<Rightarrow> state \<Rightarrow> state" where
  "main w st = main_targets w subreddits st"

definition init_state :: "nat \<Rightarrow> state" where
  "init_state t0 = \<lparr>all_data = [], trace = [], clock = t0\<rparr>"

subsection \<open>Reading the output\<close>

text \<open>
  The targets the output reports as failed are the error lines of the two handlers; the
  ones it reports as scraped are the lines main prints for the entries of \<open>data\<close>.
\<close>

fun is_error_line :: "event \<Rightarrow> bool" where
  "is_error_line (Print (Error_fetching n e)) = True"
| "is_error_line (Print (Error_parsing n e)) = True"
| "is_error_line ev = False"

fun is_subreddit_line :: "event \<Rightarrow> bool" where
  "is_subreddit_line (Print (Subreddit_Line n t d)) = True"
| "is_subreddit_line ev = False"

text \<open>A target is scraped when its \<open>try\<close> block runs to its end.\<close>

definition scraped :: "world \<Rightarrow> string \<Rightarrow> bool" where
  "scraped w target = (\<not> isl (try_block w target (last_segment target) 0))"

text \<open>
  The exception, if any, with which the two statements of the fetch
  (\<open>requests.get\<close> and \<open>raise_for_status\<close>) leave the \<open>try\<close> block.
\<close>

definition fetch_error :: "world \<Rightarrow> string \<Rightarrow> exn option" where
  "fetch_error w target =
     (case requests_get w target headers 10 of
        Inl e \<Rightarrow> Some e
      | Inr response \<Rightarrow>
          (case raise_for_status response of Inl e \<Rightarrow> Some e | Inr u \<Rightarrow> None))"

subsection \<open>Concrete documents and worlds\<close>

text \<open>
  A page with three headings (one about Python, one of two characters, one without a
  keyword) and six links: a discussion, the same address again, a discussion whose text
  is one character, one with no text, a link that is no discussion, and a discussion
  whose text has 101 characters.
\<close>

definition example_soup :: soup where
  "example_soup =
     \<lparr>soup_title = Some (Some ''Python''),
      soup_tags =
        [\<lparr>tag_name = ''h1'', tag_attrs = [], tag_strings = [''  Learning Python Basics '']\<rparr>,
         \<lparr>tag_name = ''h3'', tag_attrs = [], tag_strings = [''Hi'']\<rparr>,
         \<lparr>tag_name = ''h2'', tag_attrs = [], tag_strings = [''Cooking tips'']\<rparr>,
         \<lparr>tag_name = ''a'', tag_attrs = [(''href'', ''/r/Python/comments/abc/intro/'')],
          tag_strings = ['' Intro thread '']\<rparr>,
         \<lparr>tag_name = ''a'', tag_attrs = [(''href'', ''/r/Python/comments/abc/intro/'')],
          tag_strings = [''12 comments'']\<rparr>,
         \<lparr>tag_name = ''a'', tag_attrs = [(''href'', ''/r/Python/comments/xyz/one/'')],
          tag_strings = [''x'']\<rparr>,
         \<lparr>tag_name = ''a'', tag_attrs = [(''href'', ''/r/Python/comments/def/none/'')],
          tag_strings = []\<rparr>,
         \<lparr>tag_name = ''a'', tag_attrs = [(''href'', ''/r/Python/wiki/'')],
          tag_strings = [''Wiki'']\<rparr>,
         \<lparr>tag_name = ''a'', tag_attrs = [(''href'', ''/r/Python/comments/ghi/long/'')],
          tag_strings = [replicate 101 (CHR ''a'')]\<rparr>]\<rparr>"

text \<open>A page with two discussion links whose addresses differ in case only.\<close>

definition case_soup :: soup where
  "case_soup =
     \<lparr>soup_title = None,
      soup_tags =
        [\<lparr>tag_name = ''a'', tag_attrs = [(''href'', ''/r/Python/comments/ABC/'')],
          tag_strings = [''Upper'']\<rparr>,
         \<lparr>tag_name = ''a'', tag_attrs = [(''href'', ''/r/Python/comments/abc/'')],
          tag_strings = [''Lower'']\<rparr>]\<rparr>"

text \<open>Every request answered with status 200 and the page above.\<close>

definition world_up :: world where
  "world_up =
     \<lparr>requests_get = (\<lambda>target hs timeout. Inr \<lparr>status_code = 200, content = ''<html>''\<rparr>),
      html_parser = (\<lambda>c. Inr example_soup),
      duration = (\<lambda>target. 1),
      file_error = (\<lambda>name. None)\<rparr>"

text \<open>The same, but the request for r/programming fails to connect.\<close>

definition world_programming_down :: world where
  "world_programming_down =
     world_up\<lparr>requests_get :=
       (\<lambda>target hs timeout.
          if target = ''https://www.reddit.com/r/programming''
          then Inl (ConnectionError ''Name or service not known'')
          else Inr \<lparr>status_code = 200, content = ''<html>''\<rparr>)\<rparr>"

text \<open>The same, but the request for r/Python is answered with status 403.\<close>

definition world_python_forbidden :: world where
  "world_python_forbidden =
     world_up\<lparr>requests_get :=
       (\<lambda>target hs timeout.
          if target = ''https://www.reddit.com/r/Python''
          then Inr \<lparr>status_code = 403, content = ''Forbidden''\<rparr>
          else Inr \<lparr>status_code = 200, content = ''<html>''\<rparr>)\<rparr>"

section \<open>The two extraction loops\<close>

lemma heading_loop_eq:
  "heading_loop hs topics =
     topics @ map (\<lambda>text. \<lparr>topic_title = text, topic_type = ''python_topic''\<rparr>)
       (filter (\<lambda>text. length text > 3 \<and> any_keyword text) (map get_text_strip hs))"
  by (induction hs arbitrary: topics) (auto simp: heading_step_def Let_def)

lemma link_step_cases:
  "link_step (ds, seen) lnk =
     (if length (get_text_strip (fst lnk)) > 1 \<and> sublist ''/comments/'' (snd lnk) \<and> snd lnk \<notin> seen
      then (ds @ [\<lparr>disc_title = truncate_title (get_text_strip (fst lnk)), disc_url = snd lnk,
                    disc_type = ''discussion''\<rparr>], insert (snd lnk) seen)
      else (ds, seen))"
  by (auto simp: link_step_def Let_def)

lemma link_loop_invariant:
  "seen = set (map disc_url ds) \<Longrightarrow> distinct (map disc_url ds) \<Longrightarrow>
   snd (link_loop ls (ds, seen)) = set (map disc_url (fst (link_loop ls (ds, seen)))) \<and>
   distinct (map disc_url (fst (link_loop ls (ds, seen))))"
proof (induction ls arbitrary: ds seen)
  case Nil
  then show ?case by simp
next
  case (Cons lnk ls)
  show ?case
  proof (cases "length (get_text_strip (fst lnk)) > 1 \<and> sublist ''/comments/'' (snd lnk) \<and> snd lnk \<notin> seen")
    case True
    then have step: "link_step (ds, seen) lnk =
        (ds @ [\<lparr>disc_title = truncate_title (get_text_strip (fst lnk)), disc_url = snd lnk,
                    disc_type = ''discussion''\<rparr>], insert (snd lnk) seen)"
      by (simp add: link_step_cases)
    show ?thesis
      unfolding link_loop.simps step
      by (rule Cons.IH) (use Cons.prems True in auto)
  next
    case False
    then have step: "link_step (ds, seen) lnk = (ds, seen)"
      by (simp add: link_step_cases)
    show ?thesis
      unfolding link_loop.simps step
      by (rule Cons.IH) (use Cons.prems in auto)
  qed
qed

lemma link_loop_urls:
  "seen = set (map disc_url ds) \<Longrightarrow>
   set (map disc_url (fst (link_loop ls (ds, seen)))) =
     seen \<union> snd ` {lnk \<in> set ls. length (get_text_strip (fst lnk)) > 1 \<and> sublist ''/comments/'' (snd lnk)}"
proof (induction ls arbitrary: ds seen)
  case Nil
  then show ?case by simp
next
  case (Cons lnk ls)
  show ?case
  proof (cases "length (get_text_strip (fst lnk)) > 1 \<and> sublist ''/comments/'' (snd lnk) \<and> snd lnk \<notin> seen")
    case True
    then have step: "link_step (ds, seen) lnk =
        (ds @ [\<lparr>disc_title = truncate_title (get_text_strip (fst lnk)), disc_url = snd lnk,
                    disc_type = ''discussion''\<rparr>], insert (snd lnk) seen)"
      by (simp add: link_step_cases)
    have "set (map disc_url (fst (link_loop ls (ds @ [\<lparr>disc_title = truncate_title (get_text_strip (fst lnk)), disc_url = snd lnk,
                    disc_type = ''discussion''\<rparr>], insert (snd lnk) seen)))) =
        insert (snd lnk) seen \<union> snd ` {lnk \<in> set ls. length (get_text_strip (fst lnk)) > 1 \<and> sublist ''/comments/'' (snd lnk)}"
      by (rule Cons.IH) (use Cons.prems in auto)
    with True show ?thesis
      unfolding link_loop.simps step by auto
  next
    case False
    then have step: "link_step (ds, seen) lnk = (ds, seen)"
      by (simp add: link_step_cases)
    have "set (map disc_url (fst (link_loop ls (ds, seen)))) =
        seen \<union> snd ` {lnk \<in> set ls. length (get_text_strip (fst lnk)) > 1 \<and> sublist ''/comments/'' (snd lnk)}"
      by (rule Cons.IH) (use Cons.prems in auto)
    with False show ?thesis
      unfolding link_loop.simps step by auto
  qed
qed

lemma link_loop_members:
  "d \<in> set (fst (link_loop ls (ds, seen))) \<Longrightarrow>
   d \<in> set ds \<or>
   (\<exists>lnk \<in> set ls.
      d = \<lparr>disc_title = truncate_title (get_text_strip (fst lnk)), disc_url = snd lnk,
           disc_type = ''discussion''\<rparr> \<and>
      length (get_text_strip (fst lnk)) > 1 \<and> sublist ''/comments/'' (snd lnk))"
proof (induction ls arbitrary: ds seen)
  case Nil
  then show ?case by simp
next
  case (Cons lnk ls)
  from Cons.prems Cons.IH show ?case
    by (fastforce simp: link_step_cases split: if_splits)
qed

section \<open>The loop over the targets\<close>

lemma try_block_isl:
  "isl (try_block w target n now) = isl (try_block w target n' now')"
  by (simp add: try_block_def split: sum.splits)

lemma try_block_url: "try_block w target n now = Inr d \<Longrightarrow> url d = target"
  by (auto simp: try_block_def split: sum.splits)

lemma all_data_scrape_step:
  "all_data (scrape_step w st target) =
     all_data st @
       (case try_block w target (last_segment target) (clock st + duration w target) of
          Inl e \<Rightarrow> [] | Inr d \<Rightarrow> [d])"
  by (simp add: scrape_step_def Let_def print_def emit_def sleep_def split: sum.splits)

lemma urls_scrape_step:
  "map url (all_data (scrape_step w st target)) =
     map url (all_data st) @ (if scraped w target then [target] else [])"
proof (cases "try_block w target (last_segment target) (clock st + duration w target)")
  case (Inl e)
  then have "isl (try_block w target (last_segment target) (clock st + duration w target))"
    by simp
  then have "\<not> scraped w target"
    unfolding scraped_def using try_block_isl by blast
  with Inl show ?thesis by (simp add: all_data_scrape_step)
next
  case (Inr d)
  then have "\<not> isl (try_block w target (last_segment target) (clock st + duration w target))"
    by simp
  then have "scraped w target"
    unfolding scraped_def using try_block_isl by blast
  with Inr try_block_url [OF Inr] show ?thesis by (simp add: all_data_scrape_step)
qed

lemma urls_scrape_loop:
  "map url (all_data (scrape_loop w targets st)) =
     map url (all_data st) @ filter (scraped w) targets"
  by (induction targets arbitrary: st) (simp_all add: urls_scrape_step)

lemma urls_scrape_targets:
  "map url (all_data (scrape_targets w targets st)) = filter (scraped w) targets"
  by (simp add: scrape_targets_def urls_scrape_loop)

lemma trace_scrape_step:
  "trace (scrape_step w st target) =
     trace st @ [Print (Scraping (last_segment target)), Get target] @
       (case try_block w target (last_segment target) (clock st + duration w target) of
          Inl e \<Rightarrow> [Print (if is_RequestException e
                             then Error_fetching (last_segment target) e
                             else Error_parsing (last_segment target) e)]
        | Inr d \<Rightarrow> [Sleep 2])"
  by (simp add: scrape_step_def Let_def print_def emit_def sleep_def split: sum.splits)

lemma errors_scrape_step:
  "length (filter is_error_line (trace (scrape_step w st target))) =
     length (filter is_error_line (trace st)) + (if scraped w target then 0 else 1)"
proof (cases "try_block w target (last_segment target) (clock st + duration w target)")
  case (Inl e)
  then have "isl (try_block w target (last_segment target) (clock st + duration w target))"
    by simp
  then have "\<not> scraped w target"
    unfolding scraped_def using try_block_isl by blast
  with Inl show ?thesis by (simp add: trace_scrape_step)
next
  case (Inr d)
  then have "\<not> isl (try_block w target (last_segment target) (clock st + duration w target))"
    by simp
  then have "scraped w target"
    unfolding scraped_def using try_block_isl by blast
  with Inr show ?thesis by (simp add: trace_scrape_step)
qed

lemma subreddit_lines_scrape_step:
  "filter is_subreddit_line (trace (scrape_step w st target)) = filter is_subreddit_line (trace st)"
  by (simp add: trace_scrape_step split: sum.splits)

lemma errors_scrape_loop:
  "length (filter is_error_line (trace (scrape_loop w targets st))) =
     length (filter is_error_line (trace st)) + length (filter (\<lambda>t. \<not> scraped w t) targets)"
  by (induction targets arbitrary: st) (simp_all add: errors_scrape_step)

lemma subreddit_lines_scrape_loop:
  "filter is_subreddit_line (trace (scrape_loop w targets st)) = filter is_subreddit_line (trace st)"
  by (induction targets arbitrary: st) (simp_all add: subreddit_lines_scrape_step)

lemma length_all_data_scrape_targets:
  "length (all_data (scrape_targets w targets st)) = length (filter (scraped w) targets)"
  using urls_scrape_targets [of w targets st] by (metis length_map)

lemma trace_summary_loop:
  "trace (snd (summary_loop data totals st)) =
     trace st @ map (\<lambda>d. Print (Subreddit_Line (subreddit d) (length (python_topics d))
                                   (length (discussions d)))) data"
  by (induction data arbitrary: totals st) (simp_all add: Let_def print_def emit_def)

lemma totals_summary_loop:
  "fst (summary_loop data totals st) =
     (fst totals + sum_list (map (\<lambda>d. length (python_topics d)) data),
      snd totals + sum_list (map (\<lambda>d. length (discussions d)) data))"
  by (induction data arbitrary: totals st) (simp_all add: Let_def)

lemma trace_save_python_data:
  "\<exists>evs. trace (save_python_data w data fj fc st) = trace st @ evs \<and>
      filter is_error_line evs = [] \<and> filter is_subreddit_line evs = []"
  by (auto simp: save_python_data_def print_def emit_def Let_def split: option.splits)

section \<open>main\<close>

lemma subreddit_lines_main_targets:
  "length (filter is_subreddit_line (trace (main_targets w targets st))) =
     length (filter is_subreddit_line (trace st)) + length (filter (scraped w) targets)"
proof -
  define st1 where "st1 = print Rule (print Banner st)"
  define st2 where "st2 = scrape_targets w targets st1"
  have s1: "filter is_subreddit_line (trace st1) = filter is_subreddit_line (trace st)"
    by (simp add: st1_def print_def emit_def)
  have s2: "filter is_subreddit_line (trace st2) = filter is_subreddit_line (trace st)"
    by (simp add: st2_def scrape_targets_def subreddit_lines_scrape_loop s1)
  have len: "length (all_data st2) = length (filter (scraped w) targets)"
    by (simp add: st2_def length_all_data_scrape_targets)
  show ?thesis
  proof (cases "all_data st2 = []")
    case True
    then have "main_targets w targets st = print Analysis_failed st2"
      by (simp add: main_targets_def Let_def st1_def st2_def)
    with True len s2 show ?thesis by (simp add: print_def emit_def)
  next
    case False
    define st3 where "st3 = print Analysis_Results st2"
    define r where "r = summary_loop (all_data st2) (0, 0) st3"
    define st4 where
      "st4 = print (Total_Line (fst (fst r)) (snd (fst r)) (length (all_data st2))) (snd r)"
    define st5 where
      "st5 = save_python_data w (all_data st2) ''python_topics.json'' ''python_topics.csv'' st4"
    from False have m: "main_targets w targets st = print Check_files (print Completed st5)"
      by (simp add: main_targets_def Let_def st1_def st2_def st3_def r_def st4_def st5_def)
    have s3: "length (filter is_subreddit_line (trace (snd r))) =
        length (filter is_subreddit_line (trace st)) + length (all_data st2)"
      by (simp add: r_def trace_summary_loop st3_def print_def emit_def s2 filter_map comp_def)
    have s4: "length (filter is_subreddit_line (trace st4)) =
        length (filter is_subreddit_line (trace st)) + length (all_data st2)"
      by (simp add: st4_def print_def emit_def s3)
    obtain evs where evs: "trace st5 = trace st4 @ evs" "filter is_subreddit_line evs = []"
      using trace_save_python_data [of w "all_data st2" "''python_topics.json''"
          "''python_topics.csv''" st4]
      unfolding st5_def by blast
    have "length (filter is_subreddit_line (trace st5)) =
        length (filter is_subreddit_line (trace st)) + length (all_data st2)"
      by (simp add: evs s4)
    with m len show ?thesis by (simp add: print_def emit_def)
  qed
qed

lemma error_lines_main_targets:
  "length (filter is_error_line (trace (main_targets w targets st))) =
     length (filter is_error_line (trace st)) + length (filter (\<lambda>t. \<not> scraped w t) targets)"
proof -
  define st1 where "st1 = print Rule (print Banner st)"
  define st2 where "st2 = scrape_targets w targets st1"
  have s1: "filter is_error_line (trace st1) = filter is_error_line (trace st)"
    by (simp add: st1_def print_def emit_def)
  have s2: "length (filter is_error_line (trace st2)) =
      length (filter is_error_line (trace st)) + length (filter (\<lambda>t. \<not> scraped w t) targets)"
    by (simp add: st2_def scrape_targets_def errors_scrape_loop s1)
  show ?thesis
  proof (cases "all_data st2 = []")
    case True
    then have "main_targets w targets st = print Analysis_failed st2"
      by (simp add: main_targets_def Let_def st1_def st2_def)
    with s2 show ?thesis by (simp add: print_def emit_def)
  next
    case False
    define st3 where "st3 = print Analysis_Results st2"
    define r where "r = summary_loop (all_data st2) (0, 0) st3"
    define st4 where
      "st4 = print (Total_Line (fst (fst r)) (snd (fst r)) (length (all_data st2))) (snd r)"
    define st5 where
      "st5 = save_python_data w (all_data st2) ''python_topics.json'' ''python_topics.csv'' st4"
    from False have m: "main_targets w targets st = print Check_files (print Completed st5)"
      by (simp add: main_targets_def Let_def st1_def st2_def st3_def r_def st4_def st5_def)
    have s3: "length (filter is_error_line (trace (snd r))) = length (filter is_error_line (trace st2))"
      by (simp add: r_def trace_summary_loop st3_def print_def emit_def filter_map comp_def)
    have s4: "length (filter is_error_line (trace st4)) = length (filter is_error_line (trace st2))"
      by (simp add: st4_def print_def emit_def s3)
    obtain evs where evs: "trace st5 = trace st4 @ evs" "filter is_error_line evs = []"
      using trace_save_python_data [of w "all_data st2" "''python_topics.json''"
          "''python_topics.csv''" st4]
      unfolding st5_def by blast
    have "length (filter is_error_line (trace st5)) = length (filter is_error_line (trace st2))"
      by (simp add: evs s4)
    with m s2 show ?thesis by (simp add: print_def emit_def)
  qed
qed

section \<open>Facts the claims share\<close>

lemma extract_discussions_distinct: "distinct (map disc_url (extract_discussions s))"
  unfolding extract_discussions_def
  using link_loop_invariant [of "{}" "[]" "find_all_a_href s"] by simp

lemma extract_discussions_urls:
  "set (map disc_url (extract_discussions s)) =
     snd ` {lnk \<in> set (find_all_a_href s).
              length (get_text_strip (fst lnk)) > 1 \<and> sublist ''/comments/'' (snd lnk)}"
  unfolding extract_discussions_def
  using link_loop_urls [of "{}" "[]" "find_all_a_href s"] by simp

lemma extract_discussions_members:
  "d \<in> set (extract_discussions s) \<Longrightarrow>
   \<exists>lnk \<in> set (find_all_a_href s).
      d = \<lparr>disc_title = truncate_title (get_text_strip (fst lnk)), disc_url = snd lnk,
           disc_type = ''discussion''\<rparr> \<and>
      length (get_text_strip (fst lnk)) > 1 \<and> sublist ''/comments/'' (snd lnk)"
  unfolding extract_discussions_def
  using link_loop_members [of d "find_all_a_href s" "[]" "{}"] by simp

lemma truncate_title_length: "length text > 100 \<Longrightarrow> length (truncate_title text) = 103"
  by (simp add: truncate_title_def)

lemma truncate_title_suffix: "length text > 100 \<Longrightarrow> suffix ''...'' (truncate_title text)"
  by (simp add: truncate_title_def suffix_def)

lemma fetch_error_try_block:
  "fetch_error w target = Some e \<Longrightarrow> try_block w target n now = Inl e"
  by (auto simp: fetch_error_def try_block_def split: sum.splits)

section \<open>The claims\<close>

subsection \<open>C1: one outcome for each target\<close>

text \<open>
  C1, as stated: the list returned by a batch run has exactly one entry for each target,
  failed targets included. It is false: when the request for r/programming cannot connect,
  the list returned for the three targets has two entries.
\<close>

theorem one_outcome_per_target_counterexample:
  "length (all_data (scrape_reddit_python_topics world_programming_down (init_state 0))) \<noteq>
   length subreddits"
  by code_simp

text \<open>
  C1, amended: the list returned by a batch run has exactly one entry for each target whose
  \<open>try\<close> block ran to its end, in the order of the targets, and no entry for a target
  whose fetch or parse failed; so it never has more entries than there are targets.
\<close>

theorem outcomes_are_the_scraped_targets:
  "map url (all_data (scrape_targets w targets st)) = filter (scraped w) targets \<and>
   length (all_data (scrape_targets w targets st)) \<le> length targets"
proof
  show "map url (all_data (scrape_targets w targets st)) = filter (scraped w) targets"
    by (rule urls_scrape_targets)
  show "length (all_data (scrape_targets w targets st)) \<le> length targets"
    by (simp add: length_all_data_scrape_targets)
qed

subsection \<open>C2: a failed fetch does not stop the batch\<close>

text \<open>
  C2, as stated: a fetch that fails is recorded in the returned data, as an outcome of
  that target with no records and the reason of the failure. It is false: the request for
  r/programming fails to connect, and no entry of the returned list is about
  r/programming.
\<close>

theorem failed_fetch_recorded_counterexample:
  "fetch_error world_programming_down ''https://www.reddit.com/r/programming'' =
     Some (ConnectionError ''Name or service not known'') \<and>
   ''https://www.reddit.com/r/programming'' \<notin>
     set (map url (all_data (scrape_reddit_python_topics world_programming_down (init_state 0))))"
  by code_simp

text \<open>
  C2, amended: when the fetch of a target ends in an exception (a network error, a
  timeout, an HTTP error status), the exception does not leave the loop: the run prints
  the line "Scraping", issues the request, prints one error line with the exception,
  leaves \<open>all_data\<close> as it was, and goes on with the remaining targets.
\<close>

theorem failed_fetch_is_printed_and_skipped:
  assumes "fetch_error w target = Some e"
  shows "scrape_loop w (target # rest) st =
         scrape_loop w rest
           (st\<lparr>trace := trace st @
                  [Print (Scraping (last_segment target)), Get target,
                   Print (if is_RequestException e
                          then Error_fetching (last_segment target) e
                          else Error_parsing (last_segment target) e)],
               clock := clock st + duration w target\<rparr>)"
proof -
  have "try_block w target (last_segment target) (clock st + duration w target) = Inl e"
    using assms by (rule fetch_error_try_block)
  then have "scrape_step w st target =
      st\<lparr>trace := trace st @
             [Print (Scraping (last_segment target)), Get target,
              Print (if is_RequestException e
                     then Error_fetching (last_segment target) e
                     else Error_parsing (last_segment target) e)],
          clock := clock st + duration w target\<rparr>"
    by (simp add: scrape_step_def Let_def print_def emit_def)
  then show ?thesis by simp
qed

text \<open>
  An instance: r/Python answers with status 403, and the run goes on with
  r/programming.
\<close>

theorem failed_fetch_is_printed_and_skipped_witness:
  "fetch_error world_python_forbidden ''https://www.reddit.com/r/Python'' = Some (HTTPError 403) \<and>
   scrape_loop world_python_forbidden
     [''https://www.reddit.com/r/Python'', ''https://www.reddit.com/r/programming''] (init_state 0) =
   scrape_loop world_python_forbidden [''https://www.reddit.com/r/programming'']
     ((init_state 0)\<lparr>trace := trace (init_state 0) @
         [Print (Scraping (last_segment ''https://www.reddit.com/r/Python'')),
          Get ''https://www.reddit.com/r/Python'',
          Print (if is_RequestException (HTTPError 403)
                 then Error_fetching (last_segment ''https://www.reddit.com/r/Python'') (HTTPError 403)
                 else Error_parsing (last_segment ''https://www.reddit.com/r/Python'') (HTTPError 403))],
        clock := clock (init_state 0) + duration world_python_forbidden ''https://www.reddit.com/r/Python''\<rparr>)"
proof -
  have h: "fetch_error world_python_forbidden ''https://www.reddit.com/r/Python'' =
      Some (HTTPError 403)"
    by code_simp
  from h failed_fetch_is_printed_and_skipped [OF h] show ?thesis by (rule conjI)
qed

subsection \<open>C3: the counts reconcile\<close>

text \<open>
  C3. In every run of main over a list of targets, the number of subreddits main reports
  as scraped (one line for each entry of \<open>data\<close>) plus the number of targets reported as
  failed (one error line printed by a handler for each) is the number of targets.
\<close>

theorem summary_reconciles:
  "length (filter is_subreddit_line (trace (main_targets w targets (init_state t0)))) +
   length (filter is_error_line (trace (main_targets w targets (init_state t0)))) =
   length targets"
proof -
  have "length (filter (scraped w) targets) + length (filter (\<lambda>t. \<not> scraped w t) targets) =
      length targets"
    by (rule sum_length_filter_compl)
  then show ?thesis
    by (simp add: subreddit_lines_main_targets error_lines_main_targets init_state_def)
qed

subsection \<open>C4: the report follows the order of the targets\<close>

text \<open>
  C4. The entries of the returned list are in the order in which the targets were
  enumerated: their addresses are a subsequence of the list of targets, and they are the
  list of targets itself when there is an entry for every target.
\<close>

theorem report_in_enumeration_order:
  "subseq (map url (all_data (scrape_targets w targets st))) targets \<and>
   (length (all_data (scrape_targets w targets st)) = length targets \<longrightarrow>
      map url (all_data (scrape_targets w targets st)) = targets)"
proof
  show "subseq (map url (all_data (scrape_targets w targets st))) targets"
    by (simp add: urls_scrape_targets)
  show "length (all_data (scrape_targets w targets st)) = length targets \<longrightarrow>
      map url (all_data (scrape_targets w targets st)) = targets"
  proof
    assume "length (all_data (scrape_targets w targets st)) = length targets"
    then have "length (filter (scraped w) targets) = length targets"
      by (simp add: length_all_data_scrape_targets)
    then have "filter (scraped w) targets = targets"
      using length_filter_less [of _ targets "scraped w"]
      by (metis filter_id_conv less_irrefl)
    then show "map url (all_data (scrape_targets w targets st)) = targets"
      by (simp add: urls_scrape_targets)
  qed
qed

text \<open>
  An instance: when every request succeeds, the three entries are in the order of the
  three subreddits.
\<close>

theorem report_in_enumeration_order_witness:
  "length (all_data (scrape_targets world_up subreddits (init_state 0))) = length subreddits \<and>
   map url (all_data (scrape_targets world_up subreddits (init_state 0))) = subreddits"
proof -
  have h: "length (all_data (scrape_targets world_up subreddits (init_state 0))) = length subreddits"
    by code_simp
  from report_in_enumeration_order [of world_up subreddits "init_state 0"] h
  show ?thesis by blast
qed

subsection \<open>C5: no address twice in one document\<close>

text \<open>
  C5. Within one document no two discussion records have the same address, and the
  addresses recorded are exactly the ones of the links that pass the two tests on text and
  address: only an exact repetition is dropped, so two addresses that differ in case are
  both kept. The set of seen addresses starts empty for every document: in one batch the
  same address is recorded for each of the three targets.
\<close>

theorem discussion_urls_distinct_per_document:
  "distinct (map disc_url (extract_discussions s)) \<and>
   set (map disc_url (extract_discussions s)) =
     snd ` {lnk \<in> set (find_all_a_href s).
              length (get_text_strip (fst lnk)) > 1 \<and> sublist ''/comments/'' (snd lnk)} \<and>
   map disc_url (extract_discussions case_soup) =
     [''/r/Python/comments/ABC/'', ''/r/Python/comments/abc/''] \<and>
   map (\<lambda>d. map disc_url (discussions d))
     (all_data (scrape_reddit_python_topics world_up (init_state 0))) =
     [[''/r/Python/comments/abc/intro/'', ''/r/Python/comments/ghi/long/''],
      [''/r/Python/comments/abc/intro/'', ''/r/Python/comments/ghi/long/''],
      [''/r/Python/comments/abc/intro/'', ''/r/Python/comments/ghi/long/'']]"
proof (intro conjI)
  show "distinct (map disc_url (extract_discussions s))"
    by (rule extract_discussions_distinct)
  show "set (map disc_url (extract_discussions s)) =
     snd ` {lnk \<in> set (find_all_a_href s).
              length (get_text_strip (fst lnk)) > 1 \<and> sublist ''/comments/'' (snd lnk)}"
    by (rule extract_discussions_urls)
  show "map disc_url (extract_discussions case_soup) =
     [''/r/Python/comments/ABC/'', ''/r/Python/comments/abc/'']"
    by code_simp
  show "map (\<lambda>d. map disc_url (discussions d))
     (all_data (scrape_reddit_python_topics world_up (init_state 0))) =
     [[''/r/Python/comments/abc/intro/'', ''/r/Python/comments/ghi/long/''],
      [''/r/Python/comments/abc/intro/'', ''/r/Python/comments/ghi/long/''],
      [''/r/Python/comments/abc/intro/'', ''/r/Python/comments/ghi/long/'']]"
    by code_simp
qed

subsection \<open>C6: titles longer than 100 characters are cut\<close>

text \<open>
  C6. Every discussion record comes from a link of the document, and its title is the
  link's stripped text when that has at most 100 characters; otherwise it is the first
  100 characters followed by three dots, has length 103 and ends with the three dots.
\<close>

theorem discussion_title_truncation:
  assumes "d \<in> set (extract_discussions s)"
  shows "\<exists>lnk \<in> set (find_all_a_href s).
           disc_url d = snd lnk \<and>
           (if length (get_text_strip (fst lnk)) > 100
            then disc_title d = take 100 (get_text_strip (fst lnk)) @ ''...'' \<and>
                 length (disc_title d) = 103 \<and> suffix ''...'' (disc_title d)
            else disc_title d = get_text_strip (fst lnk))"
proof -
  from extract_discussions_members [OF assms] obtain lnk where
    lnk: "lnk \<in> set (find_all_a_href s)" and
    d: "d = \<lparr>disc_title = truncate_title (get_text_strip (fst lnk)), disc_url = snd lnk,
             disc_type = ''discussion''\<rparr>"
    by blast
  have "disc_url d = snd lnk" using d by simp
  moreover have "disc_title d = truncate_title (get_text_strip (fst lnk))" using d by simp
  ultimately have "disc_url d = snd lnk \<and>
           (if length (get_text_strip (fst lnk)) > 100
            then disc_title d = take 100 (get_text_strip (fst lnk)) @ ''...'' \<and>
                 length (disc_title d) = 103 \<and> suffix ''...'' (disc_title d)
            else disc_title d = get_text_strip (fst lnk))"
    using truncate_title_length [of "get_text_strip (fst lnk)"]
      truncate_title_suffix [of "get_text_strip (fst lnk)"]
    by (simp add: truncate_title_def)
  with lnk show ?thesis by blast
qed

text \<open>
  An instance: the link of the example page whose text has 101 characters.
\<close>

theorem discussion_title_truncation_witness:
  "\<exists>lnk \<in> set (find_all_a_href example_soup).
     disc_url \<lparr>disc_title = replicate 100 (CHR ''a'') @ ''...'',
               disc_url = ''/r/Python/comments/ghi/long/'',
               disc_type = ''discussion''\<rparr> = snd lnk \<and>
     (if length (get_text_strip (fst lnk)) > 100
      then disc_title \<lparr>disc_title = replicate 100 (CHR ''a'') @ ''...'',
                        disc_url = ''/r/Python/comments/ghi/long/'',
                        disc_type = ''discussion''\<rparr> =
             take 100 (get_text_strip (fst lnk)) @ ''...'' \<and>
           length (disc_title \<lparr>disc_title = replicate 100 (CHR ''a'') @ ''...'',
                        disc_url = ''/r/Python/comments/ghi/long/'',
                        disc_type = ''discussion''\<rparr>) = 103 \<and>
           suffix ''...'' (disc_title \<lparr>disc_title = replicate 100 (CHR ''a'') @ ''...'',
                        disc_url = ''/r/Python/comments/ghi/long/'',
                        disc_type = ''discussion''\<rparr>)
      else disc_title \<lparr>disc_title = replicate 100 (CHR ''a'') @ ''...'',
                        disc_url = ''/r/Python/comments/ghi/long/'',
                        disc_type = ''discussion''\<rparr> = get_text_strip (fst lnk))"
proof -
  have h: "\<lparr>disc_title = replicate 100 (CHR ''a'') @ ''...'',
            disc_url = ''/r/Python/comments/ghi/long/'',
            disc_type = ''discussion''\<rparr> \<in> set (extract_discussions example_soup)"
    by code_simp
  from discussion_title_truncation [OF h] show ?thesis .
qed

subsection \<open>C7: which headings become topics\<close>

text \<open>
  C7. A heading adds a topic record, with its stripped text as the title, if and only if
  that text has more than 3 characters and its lower-case form contains one of the five
  keywords; so the topics of a document are its h1 to h4 headings filtered by that test.
  "Learning Python Basics" becomes a topic and "Hi" does not.
\<close>

theorem topic_iff_long_enough_and_keyword:
  "heading_step topics heading =
     (if length (get_text_strip heading) > 3 \<and>
         list_ex (\<lambda>keyword. sublist keyword (lower (get_text_strip heading)))
           [''python'', ''programming'', ''code'', ''developer'', ''coding'']
      then topics @ [\<lparr>topic_title = get_text_strip heading, topic_type = ''python_topic''\<rparr>]
      else topics) \<and>
   extract_topics s =
     map (\<lambda>text. \<lparr>topic_title = text, topic_type = ''python_topic''\<rparr>)
       (filter (\<lambda>text. length text > 3 \<and>
                  list_ex (\<lambda>keyword. sublist keyword (lower text))
                    [''python'', ''programming'', ''code'', ''developer'', ''coding''])
          (map get_text_strip (find_all s [''h1'', ''h2'', ''h3'', ''h4'']))) \<and>
   heading_step topics
     \<lparr>tag_name = ''h2'', tag_attrs = [], tag_strings = [''Learning Python Basics'']\<rparr> =
     topics @ [\<lparr>topic_title = ''Learning Python Basics'', topic_type = ''python_topic''\<rparr>] \<and>
   heading_step topics \<lparr>tag_name = ''h2'', tag_attrs = [], tag_strings = [''Hi'']\<rparr> = topics"
proof (intro conjI)
  show "heading_step topics heading =
     (if length (get_text_strip heading) > 3 \<and>
         list_ex (\<lambda>keyword. sublist keyword (lower (get_text_strip heading)))
           [''python'', ''programming'', ''code'', ''developer'', ''coding'']
      then topics @ [\<lparr>topic_title = get_text_strip heading, topic_type = ''python_topic''\<rparr>]
      else topics)"
    by (auto simp: heading_step_def Let_def any_keyword_def topic_keywords_def)
  show "extract_topics s =
     map (\<lambda>text. \<lparr>topic_title = text, topic_type = ''python_topic''\<rparr>)
       (filter (\<lambda>text. length text > 3 \<and>
                  list_ex (\<lambda>keyword. sublist keyword (lower text))
                    [''python'', ''programming'', ''code'', ''developer'', ''coding''])
          (map get_text_strip (find_all s [''h1'', ''h2'', ''h3'', ''h4''])))"
    unfolding extract_topics_def heading_loop_eq any_keyword_def topic_keywords_def by simp
  have lp: "get_text_strip
      \<lparr>tag_name = ''h2'', tag_attrs = [], tag_strings = [''Learning Python Basics'']\<rparr> =
      ''Learning Python Basics''"
    by code_simp
  have kw: "any_keyword ''Learning Python Basics''"
    by code_simp
  show "heading_step topics
     \<lparr>tag_name = ''h2'', tag_attrs = [], tag_strings = [''Learning Python Basics'']\<rparr> =
     topics @ [\<lparr>topic_title = ''Learning Python Basics'', topic_type = ''python_topic''\<rparr>]"
    unfolding heading_step_def lp Let_def using kw by simp
  have hi: "get_text_strip \<lparr>tag_name = ''h2'', tag_attrs = [], tag_strings = [''Hi'']\<rparr> = ''Hi''"
    by code_simp
  show "heading_step topics \<lparr>tag_name = ''h2'', tag_attrs = [], tag_strings = [''Hi'']\<rparr> = topics"
    unfolding heading_step_def hi Let_def by simp
qed

subsection \<open>C8: extraction is a function of the content\<close>

text \<open>
  C8. Whatever the network, the target, the clock and the entries already collected,
  two runs of the \<open>try\<close> block that fetch the same content (and parse it with the same
  parser) store the same topic records and the same discussion records.
\<close>

theorem extraction_depends_on_content_only:
  assumes "try_block w1 target1 n1 now1 = Inr d1"
    and "try_block w2 target2 n2 now2 = Inr d2"
    and "requests_get w1 target1 headers 10 = Inr r1"
    and "requests_get w2 target2 headers 10 = Inr r2"
    and "content r1 = content r2"
    and "html_parser w1 = html_parser w2"
  shows "python_topics d1 = python_topics d2 \<and> discussions d1 = discussions d2"
  using assms by (auto simp: try_block_def split: sum.splits)

text \<open>
  An instance: r/Python in one world and r/learnpython in another, at different times.
\<close>

theorem extraction_depends_on_content_only_witness:
  "python_topics
     (projr (try_block world_up ''https://www.reddit.com/r/Python'' ''Python'' 1)) =
   python_topics
     (projr (try_block world_programming_down ''https://www.reddit.com/r/learnpython''
        ''learnpython'' 4)) \<and>
   discussions
     (projr (try_block world_up ''https://www.reddit.com/r/Python'' ''Python'' 1)) =
   discussions
     (projr (try_block world_programming_down ''https://www.reddit.com/r/learnpython''
        ''learnpython'' 4))"
proof -
  have a: "try_block world_up ''https://www.reddit.com/r/Python'' ''Python'' 1 =
      Inr (projr (try_block world_up ''https://www.reddit.com/r/Python'' ''Python'' 1))"
    by code_simp
  have b: "try_block world_programming_down ''https://www.reddit.com/r/learnpython''
        ''learnpython'' 4 =
      Inr (projr (try_block world_programming_down ''https://www.reddit.com/r/learnpython''
        ''learnpython'' 4))"
    by code_simp
  have c: "requests_get world_up ''https://www.reddit.com/r/Python'' headers 10 =
      Inr \<lparr>status_code = 200, content = ''<html>''\<rparr>"
    by (simp add: world_up_def)
  have d: "requests_get world_programming_down ''https://www.reddit.com/r/learnpython''
      headers 10 = Inr \<lparr>status_code = 200, content = ''<html>''\<rparr>"
    by (simp add: world_programming_down_def world_up_def)
  have e: "content \<lparr>status_code = 200, content = ''<html>''\<rparr> =
      content \<lparr>status_code = 200, content = ''<html>''\<rparr>"
    by simp
  have f: "html_parser world_up = html_parser world_programming_down"
    by (simp add: world_programming_down_def world_up_def)
  from extraction_depends_on_content_only [OF a b c d e f] show ?thesis .
qed

subsection \<open>C9: the delay between requests\<close>

text \<open>
  C9 asks for a delay of 2 after every fetch, failed or not. The run below shows what
  the program does when the request for r/programming fails: the request for
  r/learnpython follows the failed one with no \<open>Sleep\<close> in between.
\<close>

theorem no_delay_after_failed_fetch:
  "trace (scrape_reddit_python_topics world_programming_down (init_state 0)) =
     [Print (Scraping ''Python''), Get ''https://www.reddit.com/r/Python'', Sleep 2,
      Print (Scraping ''programming''), Get ''https://www.reddit.com/r/programming'',
      Print (Error_fetching ''programming'' (ConnectionError ''Name or service not known'')),
      Print (Scraping ''learnpython''), Get ''https://www.reddit.com/r/learnpython'', Sleep 2]"
  by code_simp

subsection \<open>C10: links with no text or one character\<close>

text \<open>
  C10. A link whose stripped text is empty or one character long changes neither the
  list of discussions nor the set of seen addresses, whatever its address; and every
  discussion record comes from a link whose stripped text has more than one character and
  whose address contains "/comments/".
\<close>

theorem short_link_text_is_dropped:
  "(length (get_text_strip t) \<le> 1 \<longrightarrow> link_step (ds, seen) (t, href) = (ds, seen)) \<and>
   (\<forall>d \<in> set (extract_discussions s).
      \<exists>lnk \<in> set (find_all_a_href s).
        disc_url d = snd lnk \<and> length (get_text_strip (fst lnk)) > 1 \<and>
        sublist ''/comments/'' (snd lnk))"
proof
  show "length (get_text_strip t) \<le> 1 \<longrightarrow> link_step (ds, seen) (t, href) = (ds, seen)"
    by (simp add: link_step_cases)
  show "\<forall>d \<in> set (extract_discussions s).
      \<exists>lnk \<in> set (find_all_a_href s).
        disc_url d = snd lnk \<and> length (get_text_strip (fst lnk)) > 1 \<and>
        sublist ''/comments/'' (snd lnk)"
  proof
    fix d assume "d \<in> set (extract_discussions s)"
    from extract_discussions_members [OF this] obtain lnk where
      "lnk \<in> set (find_all_a_href s)"
      "d = \<lparr>disc_title = truncate_title (get_text_strip (fst lnk)), disc_url = snd lnk,
           disc_type = ''discussion''\<rparr>"
      "length (get_text_strip (fst lnk)) > 1" "sublist ''/comments/'' (snd lnk)"
      by blast
    then show "\<exists>lnk \<in> set (find_all_a_href s).
        disc_url d = snd lnk \<and> length (get_text_strip (fst lnk)) > 1 \<and>
        sublist ''/comments/'' (snd lnk)"
      by auto
  qed
qed

text \<open>
  An instance: the link of the example page whose text is "x" is dropped, and the record
  titled "Intro thread" comes from a link with a longer text.
\<close>

theorem short_link_text_is_dropped_witness:
  "length (get_text_strip
     \<lparr>tag_name = ''a'', tag_attrs = [(''href'', ''/r/Python/comments/xyz/one/'')],
      tag_strings = [''x'']\<rparr>) \<le> 1 \<and>
   link_step ([], {})
     (\<lparr>tag_name = ''a'', tag_attrs = [(''href'', ''/r/Python/comments/xyz/one/'')],
       tag_strings = [''x'']\<rparr>, ''/r/Python/comments/xyz/one/'') = ([], {}) \<and>
   \<lparr>disc_title = ''Intro thread'', disc_url = ''/r/Python/comments/abc/intro/'',
    disc_type = ''discussion''\<rparr> \<in> set (extract_discussions example_soup) \<and>
   (\<exists>lnk \<in> set (find_all_a_href example_soup).
      disc_url \<lparr>disc_title = ''Intro thread'', disc_url = ''/r/Python/comments/abc/intro/'',
                disc_type = ''discussion''\<rparr> = snd lnk \<and>
      length (get_text_strip (fst lnk)) > 1 \<and> sublist ''/comments/'' (snd lnk))"
proof -
  have a: "length (get_text_strip
     \<lparr>tag_name = ''a'', tag_attrs = [(''href'', ''/r/Python/comments/xyz/one/'')],
      tag_strings = [''x'']\<rparr>) \<le> 1"
    by code_simp
  have b: "\<lparr>disc_title = ''Intro thread'', disc_url = ''/r/Python/comments/abc/intro/'',
    disc_type = ''discussion''\<rparr> \<in> set (extract_discussions example_soup)"
    by code_simp
  from short_link_text_is_dropped
    [of "\<lparr>tag_name = ''a'', tag_attrs = [(''href'', ''/r/Python/comments/xyz/one/'')],
          tag_strings = [''x'']\<rparr>" "[]" "{}" "''/r/Python/comments/xyz/one/''" example_soup]
    a b
  show ?thesis by blast
qed

end
